theory Spec2Isabelle
  imports Complex_Main "HOL-Library.Product_Lexorder"
begin

section \<open>Carbon analytics engine: data model\<close>

text \<open>
  The engine of \<^verbatim>\<open>carbon_analytics.py\<close> reads four tables of an SQLite store (declared in
  \<^verbatim>\<open>carbon_database_setup.py\<close>) and post-processes the rows with pandas. The embedding
  keeps that shape: a table is a list of records in insertion order, a query is a function
  from the database to a list of result rows, and a pandas column operation is a function
  on lists.

  Numbers. SQLite \<^verbatim>\<open>REAL\<close> columns and pandas \<^verbatim>\<open>float64\<close> values are modelled as exact
  rationals: binary rounding error of finite floating-point arithmetic is outside the
  model. The special values that the code can produce without any rounding (the mean of an
  empty column, a division by zero) are kept: a computed statistic is an \<open>fval\<close>.

  Dates. An SQLite \<^verbatim>\<open>DATE\<close> holds the ISO text \<^verbatim>\<open>YYYY-MM-DD\<close>; its comparison and its
  \<^verbatim>\<open>ORDER BY\<close> are those of the text, which on such strings is the lexicographic order
  of (year, month, day).
\<close>

type_synonym date = "int \<times> nat \<times> nat"

definition month_of :: "date \<Rightarrow> nat" where
  "month_of d = fst (snd d)"

definition leap_year :: "int \<Rightarrow> bool" where
  "leap_year y = (y mod 4 = 0 \<and> (y mod 100 \<noteq> 0 \<or> y mod 400 = 0))"

definition days_in_month :: "int \<Rightarrow> nat \<Rightarrow> nat" where
  "days_in_month y m =
     (if m = 2 then (if leap_year y then 29 else 28)
      else if m = 4 \<or> m = 6 \<or> m = 9 \<or> m = 11 then 30 else 31)"

definition prev_day :: "date \<Rightarrow> date" where
  "prev_day d =
     (case d of (y, m, dd) \<Rightarrow>
        if 1 < dd then (y, m, dd - 1)
        else if 1 < m then (y, m - 1, days_in_month y (m - 1))
        else (y - 1, 12, 31))"

text \<open>\<^verbatim>\<open>date('now', '-N days')\<close> for a window length \<open>N \<ge> 0\<close>, with \<open>now\<close> the current date.\<close>

primrec minus_days :: "date \<Rightarrow> nat \<Rightarrow> date" where
  "minus_days d 0 = d"
| "minus_days d (Suc n) = minus_days (prev_day d) n"

subsection \<open>Tables\<close>

record activity_category_row =
  category_id :: int
  category_name :: string
  ac_unit :: string
  carbon_factor :: rat

record daily_activity_row =
  da_user_id :: "int option"
  da_category_id :: "int option"
  da_activity_date :: date
  quantity :: rat
  da_carbon_emissions :: rat

record transportation_row =
  tr_user_id :: "int option"
  transport_mode :: string
  distance :: rat
  fuel_type :: "string option"
  tr_carbon_emissions :: rat
  activity_date :: date

record home_energy_row =
  he_user_id :: "int option"
  electricity_usage :: "rat option"
  gas_usage :: "rat option"
  water_usage :: "rat option"
  heating_usage :: "rat option"
  he_carbon_emissions :: rat
  consumption_date :: date

text \<open>
  Columns declared without \<^verbatim>\<open>NOT NULL\<close> are options (\<open>None\<close> is SQL \<^verbatim>\<open>NULL\<close>). The
  autoincrement keys and the \<^verbatim>\<open>logged_at\<close> timestamp, which no query of the engine reads,
  are left out; \<open>category_id\<close> is kept because the ranking query joins on it.
\<close>

record database =
  activity_categories :: "activity_category_row list"
  daily_activities :: "daily_activity_row list"
  transportation :: "transportation_row list"
  home_energy :: "home_energy_row list"

subsection \<open>Computed statistics\<close>

datatype fval = Fin rat | PosInf | NegInf | NaN

text \<open>
  Arithmetic and comparison of \<^verbatim>\<open>numpy.float64\<close> scalars on the four kinds of value: a
  division by zero does not raise, it yields an infinity or NaN, and every comparison with
  NaN is false.
\<close>

fun fsub :: "fval \<Rightarrow> fval \<Rightarrow> fval" where
  "fsub NaN _ = NaN"
| "fsub _ NaN = NaN"
| "fsub (Fin a) (Fin b) = Fin (a - b)"
| "fsub (Fin a) PosInf = NegInf"
| "fsub (Fin a) NegInf = PosInf"
| "fsub PosInf PosInf = NaN"
| "fsub PosInf _ = PosInf"
| "fsub NegInf NegInf = NaN"
| "fsub NegInf _ = NegInf"

fun fdiv :: "fval \<Rightarrow> fval \<Rightarrow> fval" where
  "fdiv NaN _ = NaN"
| "fdiv _ NaN = NaN"
| "fdiv (Fin a) (Fin b) =
     (if b \<noteq> 0 then Fin (a / b)
      else if 0 < a then PosInf else if a < 0 then NegInf else NaN)"
| "fdiv (Fin a) _ = Fin 0"
| "fdiv PosInf (Fin b) = (if b < 0 then NegInf else PosInf)"
| "fdiv NegInf (Fin b) = (if b < 0 then PosInf else NegInf)"
| "fdiv _ _ = NaN"

fun fmul :: "fval \<Rightarrow> fval \<Rightarrow> fval" where
  "fmul NaN _ = NaN"
| "fmul _ NaN = NaN"
| "fmul (Fin a) (Fin b) = Fin (a * b)"
| "fmul (Fin a) PosInf = (if 0 < a then PosInf else if a < 0 then NegInf else NaN)"
| "fmul (Fin a) NegInf = (if 0 < a then NegInf else if a < 0 then PosInf else NaN)"
| "fmul PosInf (Fin b) = (if 0 < b then PosInf else if b < 0 then NegInf else NaN)"
| "fmul NegInf (Fin b) = (if 0 < b then NegInf else if b < 0 then PosInf else NaN)"
| "fmul PosInf PosInf = PosInf"
| "fmul NegInf NegInf = PosInf"
| "fmul PosInf NegInf = NegInf"
| "fmul NegInf PosInf = NegInf"

fun fgt :: "fval \<Rightarrow> fval \<Rightarrow> bool" where
  "fgt NaN _ = False"
| "fgt _ NaN = False"
| "fgt (Fin a) (Fin b) = (b < a)"
| "fgt (Fin a) PosInf = False"
| "fgt (Fin a) NegInf = True"
| "fgt PosInf PosInf = False"
| "fgt PosInf _ = True"
| "fgt NegInf _ = False"

text \<open>
  \<^verbatim>\<open>round(x, 2)\<close> on a \<^verbatim>\<open>numpy.float64\<close>: scale by 100, round to the nearest integer with
  ties to the even one, scale back. Infinities and NaN are returned unchanged.
\<close>

definition rint :: "rat \<Rightarrow> int" where
  "rint x =
     (let f = \<lfloor>x\<rfloor>; d = x - of_int f
      in if d < 1 / 2 then f
         else if 1 / 2 < d then f + 1
         else if even f then f else f + 1)"

definition round2 :: "rat \<Rightarrow> rat" where
  "round2 x = of_int (rint (x * 100)) / 100"

fun fround2 :: "fval \<Rightarrow> fval" where
  "fround2 (Fin x) = Fin (round2 x)"
| "fround2 v = v"

text \<open>\<^verbatim>\<open>Series.mean()\<close>: NaN on an empty column; missing values are skipped.\<close>

definition mean :: "rat list \<Rightarrow> fval" where
  "mean xs = (if xs = [] then NaN else Fin (sum_list xs / of_nat (length xs)))"

definition mean_skipna :: "rat option list \<Rightarrow> fval" where
  "mean_skipna xs = mean (map the (filter (\<lambda>x. x \<noteq> None) xs))"

section \<open>Queries\<close>

subsection \<open>The per-day transport totals and the left join\<close>

text \<open>
  The subquery \<^verbatim>\<open>SELECT activity_date, user_id, SUM(carbon_emissions) FROM transportation
  GROUP BY activity_date, user_id\<close>: one row per distinct (date, user) pair.
\<close>

definition transport_daily :: "transportation_row list \<Rightarrow> (date \<times> int option \<times> rat) list" where
  "transport_daily ts =
     map (\<lambda>k. (fst k, snd k,
            sum_list (map tr_carbon_emissions
              (filter (\<lambda>t. (activity_date t, tr_user_id t) = k) ts))))
         (remdups (map (\<lambda>t. (activity_date t, tr_user_id t)) ts))"

text \<open>
  \<^verbatim>\<open>ON h.consumption_date = t.activity_date AND h.user_id = t.user_id\<close>; an SQL equality
  with a \<^verbatim>\<open>NULL\<close> operand is not true.
\<close>

definition join_on :: "home_energy_row \<Rightarrow> date \<times> int option \<times> rat \<Rightarrow> bool" where
  "join_on h t =
     (consumption_date h = fst t \<and> he_user_id h \<noteq> None \<and> he_user_id h = fst (snd t))"

definition left_join :: "'a list \<Rightarrow> 'b list \<Rightarrow> ('a \<Rightarrow> 'b \<Rightarrow> bool) \<Rightarrow> ('a \<times> 'b option) list" where
  "left_join ls rs on =
     concat (map (\<lambda>l. case filter (on l) rs of
                        [] \<Rightarrow> [(l, None)]
                      | ms \<Rightarrow> map (\<lambda>r. (l, Some r)) ms) ls)"

text \<open>\<^verbatim>\<open>COALESCE(t.transport_emissions, 0)\<close> on a joined row.\<close>

definition coalesce_transport :: "(date \<times> int option \<times> rat) option \<Rightarrow> rat" where
  "coalesce_transport t = (case t of None \<Rightarrow> 0 | Some g \<Rightarrow> snd (snd g))"

subsection \<open>Trend Detector\<close>

record trend_result =
  recent_avg :: fval
  previous_avg :: fval
  change_percent :: fval
  trend :: string

text \<open>
  The query of \<^verbatim>\<open>calculate_carbon_trends\<close>: the column \<^verbatim>\<open>total_daily_carbon\<close> of the
  home-energy rows of the user dated on or after \<^verbatim>\<open>date('now', '-{period_days * 2} days')\<close>
  (the query has no upper bound on the date), in date order. Rows of equal date keep their
  table order.
\<close>

definition trend_query :: "database \<Rightarrow> date \<Rightarrow> int \<Rightarrow> nat \<Rightarrow> (date \<times> rat) list" where
  "trend_query db now user_id period_days =
     map (\<lambda>(h, t). (consumption_date h, he_carbon_emissions h + coalesce_transport t))
       (sort_key (\<lambda>(h, t). consumption_date h)
         (filter (\<lambda>(h, t). he_user_id h = Some user_id
                    \<and> minus_days now (period_days * 2) \<le> consumption_date h)
           (left_join (home_energy db) (transport_daily (transportation db)) join_on)))"

text \<open>The pandas part of \<^verbatim>\<open>calculate_carbon_trends\<close>, on the fetched column.\<close>

definition trend_of_rows :: "nat \<Rightarrow> rat list \<Rightarrow> trend_result option" where
  "trend_of_rows period_days df =
     (if length df < period_days then None
      else
        let midpoint = length df div 2;
            recent_period = mean (drop midpoint df);
            previous_period = mean (take midpoint df);
            change = fmul (fdiv (fsub recent_period previous_period) previous_period) (Fin 100)
        in Some \<lparr> recent_avg = fround2 recent_period,
                  previous_avg = fround2 previous_period,
                  change_percent = fround2 change,
                  trend = (if fgt change (Fin 0) then ''increasing'' else ''decreasing'') \<rparr>)"

definition calculate_carbon_trends :: "database \<Rightarrow> date \<Rightarrow> int \<Rightarrow> nat \<Rightarrow> trend_result option" where
  "calculate_carbon_trends db now user_id period_days =
     trend_of_rows period_days (map snd (trend_query db now user_id period_days))"

subsection \<open>Timeline Aggregator\<close>

text \<open>
  \<^verbatim>\<open>get_user_carbon_timeline\<close>: the home-energy rows of the user dated on or after
  \<^verbatim>\<open>date('now', '-{days} days')\<close>, grouped by date with the emissions of a date summed, in
  date order. The result is the data frame's list of (\<^verbatim>\<open>consumption_date\<close>,
  \<^verbatim>\<open>daily_carbon\<close>) rows.
\<close>

definition timeline_rows :: "database \<Rightarrow> date \<Rightarrow> int \<Rightarrow> nat \<Rightarrow> home_energy_row list" where
  "timeline_rows db now user_id days =
     filter (\<lambda>h. he_user_id h = Some user_id \<and> minus_days now days \<le> consumption_date h)
       (home_energy db)"

definition get_user_carbon_timeline :: "database \<Rightarrow> date \<Rightarrow> int \<Rightarrow> nat \<Rightarrow> (date \<times> rat) list" where
  "get_user_carbon_timeline db now user_id days =
     (let rows = timeline_rows db now user_id days
      in map (\<lambda>d. (d, sum_list (map he_carbon_emissions
                         (filter (\<lambda>h. consumption_date h = d) rows))))
           (sort (remdups (map consumption_date rows))))"

subsection \<open>Pattern Analyzer\<close>

text \<open>
  A row of the frame returned by \<^verbatim>\<open>analyze_carbon_patterns\<close>. Of the three calendar
  columns only \<^verbatim>\<open>month\<close> is read again by the engine; \<^verbatim>\<open>day_of_week\<close> and
  \<^verbatim>\<open>week_of_year\<close> are not modelled.
\<close>

record pattern_row =
  p_consumption_date :: date
  p_electricity_usage :: "rat option"
  p_gas_usage :: "rat option"
  p_water_usage :: "rat option"
  p_heating_usage :: "rat option"
  home_emissions :: rat
  transport_emissions :: rat
  total_emissions :: rat
  month :: nat

definition pattern_of :: "home_energy_row \<times> (date \<times> int option \<times> rat) option \<Rightarrow> pattern_row" where
  "pattern_of ht =
     (case ht of (h, t) \<Rightarrow>
        \<lparr> p_consumption_date = consumption_date h,
          p_electricity_usage = electricity_usage h,
          p_gas_usage = gas_usage h,
          p_water_usage = water_usage h,
          p_heating_usage = heating_usage h,
          home_emissions = he_carbon_emissions h,
          transport_emissions = coalesce_transport t,
          total_emissions = he_carbon_emissions h + coalesce_transport t,
          month = month_of (consumption_date h) \<rparr>)"

definition analyze_carbon_patterns :: "database \<Rightarrow> int \<Rightarrow> pattern_row list" where
  "analyze_carbon_patterns db user_id =
     map pattern_of
       (sort_key (\<lambda>(h, t). consumption_date h)
         (filter (\<lambda>(h, t). he_user_id h = Some user_id)
           (left_join (home_energy db) (transport_daily (transportation db)) join_on)))"

subsection \<open>Activity Ranker\<close>

record eco_row =
  eco_category_name :: string
  avg_quantity :: rat
  avg_carbon :: rat
  total_carbon :: rat
  frequency :: nat

text \<open>
  The inner join of \<^verbatim>\<open>daily_activities\<close> with \<^verbatim>\<open>activity_categories\<close> on the category
  id, restricted to the user.
\<close>

definition eco_joined :: "database \<Rightarrow> int \<Rightarrow> (daily_activity_row \<times> activity_category_row) list" where
  "eco_joined db user_id =
     filter (\<lambda>(da, ac). da_user_id da = Some user_id)
       (concat (map (\<lambda>da. map (\<lambda>ac. (da, ac))
                  (filter (\<lambda>ac. da_category_id da = Some (category_id ac))
                     (activity_categories db)))
          (daily_activities db)))"

definition eco_group :: "(daily_activity_row \<times> activity_category_row) list \<Rightarrow> string \<Rightarrow> eco_row" where
  "eco_group rows name =
     (let g = map fst (filter (\<lambda>(da, ac). category_name ac = name) rows)
      in \<lparr> eco_category_name = name,
           avg_quantity = sum_list (map quantity g) / of_nat (length g),
           avg_carbon = sum_list (map da_carbon_emissions g) / of_nat (length g),
           total_carbon = sum_list (map da_carbon_emissions g),
           frequency = length g \<rparr>)"

text \<open>
  \<^verbatim>\<open>GROUP BY ac.category_name\<close>: one summary per distinct name. SQL leaves the order of
  groups of equal \<^verbatim>\<open>total_carbon\<close> open; the model sorts stably, so they keep the order in
  which the groups are listed here.
\<close>

definition eco_groups :: "database \<Rightarrow> int \<Rightarrow> eco_row list" where
  "eco_groups db user_id =
     (let rows = eco_joined db user_id
      in map (eco_group rows) (remdups (map (\<lambda>(da, ac). category_name ac) rows)))"

text \<open>\<^verbatim>\<open>LIMIT n\<close>: a negative \<open>n\<close> is no limit.\<close>

definition sql_limit :: "int \<Rightarrow> 'a list \<Rightarrow> 'a list" where
  "sql_limit n xs = (if n < 0 then xs else take (nat n) xs)"

definition get_eco_heavy_activities :: "database \<Rightarrow> int \<Rightarrow> int \<Rightarrow> eco_row list" where
  "get_eco_heavy_activities db user_id top_n =
     sql_limit top_n (sort_key (\<lambda>r. - total_carbon r) (eco_groups db user_id))"

subsection \<open>Suggestion Generator\<close>

text \<open>
  A suggestion is a dictionary; the electricity and transportation suggestions carry the key
  \<^verbatim>\<open>current_avg\<close>, the seasonal one the key \<^verbatim>\<open>peak_months\<close>.
\<close>

datatype suggestion =
    Stat (category: string) (current_avg: fval) (advice: string) (potential_reduction: string)
  | Seasonal (category: string) (peak_months: "nat list") (advice: string)
      (potential_reduction: string)

text \<open>
  \<^verbatim>\<open>patterns_df.groupby('month')['total_emissions'].mean()\<close>: one entry per month that
  occurs, in ascending month order. A group is never empty and \<^verbatim>\<open>total_emissions\<close> never
  missing, so each mean is a number.
\<close>

definition monthly_avg :: "pattern_row list \<Rightarrow> (nat \<times> rat) list" where
  "monthly_avg ps =
     map (\<lambda>m. (m, (let g = map total_emissions (filter (\<lambda>p. month p = m) ps)
                    in sum_list g / of_nat (length g))))
       (sort (remdups (map month ps)))"

text \<open>
  \<^verbatim>\<open>nlargest(n)\<close>: the \<open>n\<close> entries of largest value, largest first, entries of equal
  value in their order of appearance.
\<close>

definition nlargest :: "nat \<Rightarrow> (nat \<times> rat) list \<Rightarrow> (nat \<times> rat) list" where
  "nlargest n s = take n (sort_key (\<lambda>e. - snd e) s)"

definition electricity_suggestion :: "fval \<Rightarrow> suggestion" where
  "electricity_suggestion avg =
     Stat ''Electricity'' (fround2 avg)
       ''Consider switching to LED bulbs and unplugging devices when not in use''
       ''15-20%''"

definition transportation_suggestion :: "fval \<Rightarrow> suggestion" where
  "transportation_suggestion avg =
     Stat ''Transportation'' (fround2 avg)
       ''Try using public transport or cycling for short trips''
       ''30-40%''"

definition seasonal_suggestion :: "nat list \<Rightarrow> suggestion" where
  "seasonal_suggestion months =
     Seasonal ''Seasonal Optimization'' months
       ''Focus on energy efficiency during high-consumption months''
       ''10-15%''"

text \<open>
  A fault of the pandas layer. \<^verbatim>\<open>read_sql_query\<close> builds the frame from the fetched
  records: with at least one record the numeric columns are \<^verbatim>\<open>float64\<close>, with none every
  column has dtype \<^verbatim>\<open>object\<close>. On an object-typed column \<^verbatim>\<open>mean()\<close> still answers NaN,
  but the seasonal step fails: \<^verbatim>\<open>Series.nlargest\<close> raises \<^verbatim>\<open>TypeError\<close> on dtype
  \<^verbatim>\<open>object\<close> (older pandas versions raise \<^verbatim>\<open>DataError\<close> in the group mean just before).
  Both are the one error value of the model.
\<close>

datatype error = Object_Dtype_Error

definition object_dtype :: "pattern_row list \<Rightarrow> bool" where
  "object_dtype df = (df = [])"

text \<open>
  \<^verbatim>\<open>monthly_avg.nlargest(3).index.tolist()\<close> on the group means of the frame.
\<close>

definition peak_months_of :: "pattern_row list \<Rightarrow> error + nat list" where
  "peak_months_of df =
     (if object_dtype df then Inl Object_Dtype_Error
      else Inr (map fst (nlargest 3 (monthly_avg df))))"

text \<open>
  The rules of \<^verbatim>\<open>generate_optimization_suggestions\<close> on the pattern frame; the three
  \<^verbatim>\<open>append\<close> calls happen in this order, and a fault of the seasonal step leaves the
  function before it returns a list.
\<close>

definition suggestions_of :: "pattern_row list \<Rightarrow> error + suggestion list" where
  "suggestions_of patterns_df =
     (let avg_electricity = mean_skipna (map p_electricity_usage patterns_df);
          s1 = (if fgt avg_electricity (Fin 30)
                then [electricity_suggestion avg_electricity] else []);
          avg_transport = mean (map transport_emissions patterns_df);
          s2 = (if fgt avg_transport (Fin 2)
                then [transportation_suggestion avg_transport] else [])
      in case peak_months_of patterns_df of
           Inl err \<Rightarrow> Inl err
         | Inr peak \<Rightarrow> Inr (s1 @ s2 @ [seasonal_suggestion peak]))"

text \<open>
  The ranking frame \<^verbatim>\<open>eco_heavy_df\<close> is fetched (with the default \<^verbatim>\<open>top_n=5\<close>) and never
  read.
\<close>

definition generate_optimization_suggestions :: "database \<Rightarrow> int \<Rightarrow> error + suggestion list" where
  "generate_optimization_suggestions db user_id =
     (let patterns_df = analyze_carbon_patterns db user_id;
          eco_heavy_df = get_eco_heavy_activities db user_id 5
      in suggestions_of patterns_df)"

section \<open>Derived notions and sample stores\<close>

text \<open>
  The transport emission of one user on one day, summed over the raw \<^verbatim>\<open>transportation\<close>
  rows, and the row of the per-day subquery that the join attaches to a home-energy row.
\<close>

definition day_transport :: "transportation_row list \<Rightarrow> int \<Rightarrow> date \<Rightarrow> rat" where
  "day_transport ts user_id d =
     sum_list (map tr_carbon_emissions
       (filter (\<lambda>t. activity_date t = d \<and> tr_user_id t = Some user_id) ts))"

definition matched ::
  "transportation_row list \<Rightarrow> home_energy_row \<Rightarrow> (date \<times> int option \<times> rat) option" where
  "matched ts h =
     (case filter (join_on h) (transport_daily ts) of [] \<Rightarrow> None | m # _ \<Rightarrow> Some m)"

text \<open>The home-energy rows that the trend query's \<^verbatim>\<open>WHERE\<close> clause selects.\<close>

definition trend_window_rows :: "database \<Rightarrow> date \<Rightarrow> int \<Rightarrow> nat \<Rightarrow> home_energy_row list" where
  "trend_window_rows db now user_id period_days =
     filter (\<lambda>h. he_user_id h = Some user_id
               \<and> minus_days now (period_days * 2) \<le> consumption_date h) (home_energy db)"

text \<open>
  The activity rows of the user whose category carries a given name: the group that the
  ranking query forms for that name.
\<close>

definition category_rows :: "database \<Rightarrow> int \<Rightarrow> string \<Rightarrow> daily_activity_row list" where
  "category_rows db user_id name =
     map fst (filter (\<lambda>(da, ac). category_name ac = name) (eco_joined db user_id))"

text \<open>Concrete rows and stores on which the results below are exercised.\<close>

definition home_row :: "int \<Rightarrow> date \<Rightarrow> rat \<Rightarrow> rat \<Rightarrow> home_energy_row" where
  "home_row u d el c =
     \<lparr> he_user_id = Some u, electricity_usage = Some el, gas_usage = None,
       water_usage = None, heating_usage = None, he_carbon_emissions = c,
       consumption_date = d \<rparr>"

definition trip :: "int \<Rightarrow> date \<Rightarrow> rat \<Rightarrow> transportation_row" where
  "trip u d c =
     \<lparr> tr_user_id = Some u, transport_mode = ''Car Petrol'', distance = 10,
       fuel_type = Some ''Petrol'', tr_carbon_emissions = c, activity_date = d \<rparr>"

definition store :: "home_energy_row list \<Rightarrow> transportation_row list \<Rightarrow> database" where
  "store hs ts =
     \<lparr> activity_categories = [], daily_activities = [], transportation = ts, home_energy = hs \<rparr>"

definition db_ten :: database where
  "db_ten =
     store (map (\<lambda>i. home_row 1 (2024, 3, i) 20 (of_nat i)) [1, 2, 3, 4, 5, 6, 7, 8, 9, 10]) []"

definition db_three :: database where
  "db_three =
     store [home_row 1 (2024, 3, 3) 20 6, home_row 1 (2024, 3, 1) 20 1,
            home_row 1 (2024, 3, 2) 20 2] []"

definition db_rising :: database where
  "db_rising =
     store [home_row 1 (2024, 3, 1) 20 7, home_row 1 (2024, 3, 2) 20 12]
           [trip 1 (2024, 3, 1) (3 / 2), trip 1 (2024, 3, 1) (3 / 2), trip 2 (2024, 3, 2) 4]"

definition db_thirds :: database where
  "db_thirds = store [home_row 1 (2024, 3, 1) 20 3, home_row 1 (2024, 3, 2) 20 4] []"

definition db_zero_baseline :: database where
  "db_zero_baseline = store [home_row 1 (2024, 3, 1) 20 0, home_row 1 (2024, 3, 2) 20 5] []"

definition db_all_zero :: database where
  "db_all_zero = store [home_row 1 (2024, 3, 1) 20 0, home_row 1 (2024, 3, 2) 20 0] []"

definition db_join :: database where
  "db_join =
     store [home_row 1 (2024, 3, 2) 20 12, home_row 1 (2024, 3, 1) 20 7,
            home_row 2 (2024, 3, 5) 20 3]
           [trip 1 (2024, 3, 1) (3 / 2), trip 2 (2024, 3, 2) 4, trip 1 (2024, 3, 1) (5 / 2),
            trip 1 (2024, 3, 5) 9]"

definition db_timeline :: database where
  "db_timeline =
     store [home_row 1 (2024, 3, 2) 20 5, home_row 1 (2024, 3, 1) 20 2,
            home_row 2 (2024, 3, 1) 20 100, home_row 1 (2024, 3, 2) 20 1,
            home_row 1 (2023, 1, 1) 20 50] []"

definition category_row :: "int \<Rightarrow> string \<Rightarrow> activity_category_row" where
  "category_row i name =
     \<lparr> category_id = i, category_name = name, ac_unit = ''kWh'', carbon_factor = 1 / 5 \<rparr>"

definition activity :: "int \<Rightarrow> int \<Rightarrow> rat \<Rightarrow> rat \<Rightarrow> daily_activity_row" where
  "activity u c q e =
     \<lparr> da_user_id = Some u, da_category_id = Some c, da_activity_date = (2024, 3, 1),
       quantity = q, da_carbon_emissions = e \<rparr>"

definition db_eco :: database where
  "db_eco =
     \<lparr> activity_categories = [category_row 1 ''Electricity'', category_row 2 ''Natural Gas'',
                              category_row 3 ''Water Usage''],
       daily_activities = [activity 1 3 10 10, activity 1 1 20 4, activity 2 1 500 900,
                           activity 1 1 30 6, activity 1 2 100 50, activity 1 3 30 20,
                           activity 1 7 1 1000],
       transportation = [], home_energy = [] \<rparr>"

definition db_high :: database where
  "db_high = store [home_row 1 (2024, 3, 1) 30 5, home_row 1 (2024, 2, 10) 40 9]
                   [trip 1 (2024, 3, 1) 4, trip 1 (2024, 3, 1) 2]"

definition db_low :: database where
  "db_low = store [home_row 1 (2024, 3, 1) 20 5, home_row 1 (2024, 3, 2) 30 9]
                  [trip 1 (2024, 3, 1) 2]"

definition db_empty :: database where
  "db_empty = store [] []"

section \<open>Auxiliary facts\<close>

lemma filter_eq_distinct:
  "distinct xs \<Longrightarrow> filter (\<lambda>x. x = a) xs = (if a \<in> set xs then [a] else [])"
  by (induction xs) auto

lemma filter_join_on:
  "filter (join_on h) (transport_daily ts) =
     (if he_user_id h \<noteq> None
         \<and> (consumption_date h, he_user_id h) \<in> (\<lambda>t. (activity_date t, tr_user_id t)) ` set ts
      then [(consumption_date h, he_user_id h,
             sum_list (map tr_carbon_emissions
               (filter (\<lambda>t. (activity_date t, tr_user_id t) = (consumption_date h, he_user_id h))
                  ts)))]
      else [])"
proof -
  let ?ks = "remdups (map (\<lambda>t. (activity_date t, tr_user_id t)) ts)"
  let ?g = "\<lambda>k. (fst k, snd k, sum_list (map tr_carbon_emissions
              (filter (\<lambda>t. (activity_date t, tr_user_id t) = k) ts)))"
  have "filter (join_on h) (transport_daily ts) = map ?g (filter (join_on h \<circ> ?g) ?ks)"
    by (simp add: transport_daily_def filter_map)
  also have "join_on h \<circ> ?g
      = (\<lambda>k. he_user_id h \<noteq> None \<and> k = (consumption_date h, he_user_id h))"
    by (auto simp: join_on_def fun_eq_iff)
  also have "filter (\<lambda>k. he_user_id h \<noteq> None \<and> k = (consumption_date h, he_user_id h)) ?ks
      = (if he_user_id h \<noteq> None
         then filter (\<lambda>k. k = (consumption_date h, he_user_id h)) ?ks else [])"
    by simp
  finally show ?thesis
    by (simp add: filter_eq_distinct)
qed

lemma join_case_single:
  "(case filter (join_on h) (transport_daily ts) of
      [] \<Rightarrow> [(h, None)] | ms \<Rightarrow> map (\<lambda>r. (h, Some r)) ms)
     = [(h, matched ts h)]"
  unfolding matched_def filter_join_on by simp

lemma left_join_transport:
  "left_join hs (transport_daily ts) join_on = map (\<lambda>h. (h, matched ts h)) hs"
  unfolding left_join_def join_case_single by simp

lemma coalesce_matched:
  assumes "he_user_id h = Some u"
  shows "coalesce_transport (matched ts h) = day_transport ts u (consumption_date h)"
proof (cases "(consumption_date h, Some u) \<in> (\<lambda>t. (activity_date t, tr_user_id t)) ` set ts")
  case True
  with assms show ?thesis
    by (simp add: matched_def filter_join_on coalesce_transport_def day_transport_def)
next
  case False
  then have "filter (\<lambda>t. activity_date t = consumption_date h \<and> tr_user_id t = Some u) ts = []"
    by (auto simp: filter_empty_conv image_iff)
  with False assms show ?thesis
    by (simp add: matched_def filter_join_on coalesce_transport_def day_transport_def)
qed

lemma insort_key_map:
  "insort_key k (f x) (map f xs) = map f (insort_key (k \<circ> f) x xs)"
  by (induction xs) (auto simp: comp_def)

lemma sort_key_map:
  "sort_key k (map f xs) = map f (sort_key (k \<circ> f) xs)"
  by (induction xs) (auto simp: insort_key_map comp_def)

lemma patterns_char:
  "analyze_carbon_patterns db u =
     map (\<lambda>h. pattern_of (h, matched (transportation db) h))
       (sort_key consumption_date (filter (\<lambda>h. he_user_id h = Some u) (home_energy db)))"
proof -
  have c: "(\<lambda>(h, t). consumption_date h) \<circ> (\<lambda>h. (h, matched (transportation db) h))
      = consumption_date"
    by (simp add: fun_eq_iff)
  have f: "(\<lambda>(h, t). he_user_id h = Some u) \<circ> (\<lambda>h. (h, matched (transportation db) h))
      = (\<lambda>h. he_user_id h = Some u)"
    by (simp add: fun_eq_iff)
  show ?thesis
    unfolding analyze_carbon_patterns_def left_join_transport filter_map sort_key_map c f
    by simp
qed

lemma trend_query_char:
  "trend_query db now u pd =
     map (\<lambda>h. (consumption_date h,
               he_carbon_emissions h + coalesce_transport (matched (transportation db) h)))
       (sort_key consumption_date (trend_window_rows db now u pd))"
proof -
  have c: "(\<lambda>(h, t). consumption_date h) \<circ> (\<lambda>h. (h, matched (transportation db) h))
      = consumption_date"
    by (simp add: fun_eq_iff)
  have f: "(\<lambda>(h, t). he_user_id h = Some u \<and> minus_days now (pd * 2) \<le> consumption_date h)
        \<circ> (\<lambda>h. (h, matched (transportation db) h))
      = (\<lambda>h. he_user_id h = Some u \<and> minus_days now (pd * 2) \<le> consumption_date h)"
    by (simp add: fun_eq_iff)
  show ?thesis
    unfolding trend_query_def trend_window_rows_def left_join_transport filter_map
      sort_key_map c f
    by simp
qed

lemma length_trend_query:
  "length (trend_query db now u pd) = length (trend_window_rows db now u pd)"
  by (simp add: trend_query_char)

lemma db_ten_rows: "length (trend_window_rows db_ten (2024, 3, 10) 1 30) = 10"
  by code_simp

section \<open>Trend Detector: results\<close>

text \<open>
  C6. Insufficient data. The rows fetched by the trend query are exactly the home-energy rows
  of the user dated on or after today minus twice the period. When there are fewer of them
  than \<open>period_days\<close>, \<open>calculate_carbon_trends\<close> returns the absent result \<open>None\<close> and
  computes no trend; in particular a 30-day period with 10 rows available returns \<open>None\<close>.
\<close>

theorem trend_insufficient_data:
  "length (trend_query db now u pd) = length (trend_window_rows db now u pd)
   \<and> (length (trend_window_rows db now u pd) < pd
        \<longrightarrow> calculate_carbon_trends db now u pd = None)
   \<and> (length (trend_window_rows db now u 30) = 10
        \<longrightarrow> calculate_carbon_trends db now u 30 = None)"
  by (simp add: length_trend_query calculate_carbon_trends_def trend_of_rows_def)

theorem trend_insufficient_data_witness:
  "length (trend_window_rows db_ten (2024, 3, 10) 1 30) = 10
   \<and> calculate_carbon_trends db_ten (2024, 3, 10) 1 30 = None"
  using trend_insufficient_data [of db_ten "(2024, 3, 10)" 1 30] db_ten_rows by simp

lemma rint_close: "\<bar>of_int (rint x) - x\<bar> \<le> 1 / 2"
proof -
  have b: "of_int \<lfloor>x\<rfloor> \<le> x" "x < of_int \<lfloor>x\<rfloor> + 1" by linarith+
  consider "x - of_int \<lfloor>x\<rfloor> < 1 / 2" | "1 / 2 < x - of_int \<lfloor>x\<rfloor>"
    | "x - of_int \<lfloor>x\<rfloor> = 1 / 2" by linarith
  then show ?thesis
  proof cases
    case 1
    then have "rint x = \<lfloor>x\<rfloor>" by (simp add: rint_def Let_def)
    with 1 b show ?thesis by simp
  next
    case 2
    then have "rint x = \<lfloor>x\<rfloor> + 1" by (simp add: rint_def Let_def)
    with 2 b show ?thesis by simp
  next
    case 3
    then have "rint x = \<lfloor>x\<rfloor> \<or> rint x = \<lfloor>x\<rfloor> + 1" by (simp add: rint_def Let_def)
    with 3 b show ?thesis by auto
  qed
qed

lemma round2_close: "\<bar>round2 x - x\<bar> \<le> 1 / 200"
proof -
  have "\<bar>round2 x - x\<bar> = \<bar>of_int (rint (x * 100)) - x * 100\<bar> / 100"
    by (simp add: round2_def field_simps abs_if)
  also have "\<dots> \<le> (1 / 2) / 100"
    using rint_close [of "x * 100"] by (simp add: divide_right_mono)
  finally show ?thesis by simp
qed

lemma round2_int: "round2 (of_int k) = of_int k"
  by (simp add: round2_def rint_def Let_def)

lemma rint_tie_even:
  assumes "\<bar>of_int (rint x) - x\<bar> = 1 / 2"
  shows "even (rint x)"
proof -
  have b: "of_int \<lfloor>x\<rfloor> \<le> x" "x < of_int \<lfloor>x\<rfloor> + 1" by linarith+
  consider "x - of_int \<lfloor>x\<rfloor> < 1 / 2" | "1 / 2 < x - of_int \<lfloor>x\<rfloor>"
    | "x - of_int \<lfloor>x\<rfloor> = 1 / 2" by linarith
  then show ?thesis
  proof cases
    case 1
    then have "rint x = \<lfloor>x\<rfloor>" by (simp add: rint_def Let_def)
    with 1 b assms show ?thesis by simp
  next
    case 2
    then have "rint x = \<lfloor>x\<rfloor> + 1" by (simp add: rint_def Let_def)
    with 2 b assms show ?thesis by simp
  next
    case 3
    then show ?thesis by (simp add: rint_def Let_def)
  qed
qed

lemma round2_hundredths:
  "\<exists>k::int. round2 x = of_int k / 100 \<and> (\<bar>round2 x - x\<bar> = 1 / 200 \<longrightarrow> even k)"
proof (intro exI conjI impI)
  show "round2 x = of_int (rint (x * 100)) / 100"
    by (simp add: round2_def)
  assume "\<bar>round2 x - x\<bar> = 1 / 200"
  moreover have "\<bar>round2 x - x\<bar> = \<bar>of_int (rint (x * 100)) - x * 100\<bar> / 100"
    by (simp add: round2_def field_simps abs_if)
  ultimately have "\<bar>of_int (rint (x * 100)) - x * 100\<bar> = 1 / 2"
    by simp
  then show "even (rint (x * 100))"
    by (rule rint_tie_even)
qed

lemma sorted_trend_query: "sorted (map fst (trend_query db now u pd))"
  by (simp add: trend_query_char comp_def)

lemma trend_of_rows_Fin:
  assumes "pd \<le> length rows"
    and "mean (take (length rows div 2) rows) = Fin p"
    and "mean (drop (length rows div 2) rows) = Fin r"
  shows "trend_of_rows pd rows =
     Some \<lparr> recent_avg = Fin (round2 r), previous_avg = Fin (round2 p),
            change_percent = fround2 (fmul (fdiv (Fin (r - p)) (Fin p)) (Fin 100)),
            trend = (if fgt (fmul (fdiv (Fin (r - p)) (Fin p)) (Fin 100)) (Fin 0)
                     then ''increasing'' else ''decreasing'') \<rparr>"
  using assms by (simp add: trend_of_rows_def Let_def)

text \<open>
  C4. Split by position. When the fetched rows pass the row-count check, the result is built
  from two contiguous pieces of the date-ordered sequence: the previous half is its first
  \<open>n div 2\<close> rows and the recent half the remaining \<open>n - n div 2\<close> rows, so for odd \<open>n\<close>
  the recent half has one row more. No calendar date enters the split.
\<close>

theorem trend_split_by_position:
  assumes "q = trend_query db now u pd" and "n = length q" and "pd \<le> n"
  shows "sorted (map fst q)
     \<and> take (n div 2) q @ drop (n div 2) q = q
     \<and> length (take (n div 2) q) = n div 2
     \<and> length (drop (n div 2) q) = n - n div 2
     \<and> (odd n \<longrightarrow> length (drop (n div 2) q) = Suc (length (take (n div 2) q)))
     \<and> (even n \<longrightarrow> length (drop (n div 2) q) = length (take (n div 2) q))
     \<and> (\<exists>res. calculate_carbon_trends db now u pd = Some res
          \<and> previous_avg res = fround2 (mean (map snd (take (n div 2) q)))
          \<and> recent_avg res = fround2 (mean (map snd (drop (n div 2) q))))"
proof -
  have l1: "length (take (n div 2) q) = n div 2"
    using assms(2) by simp
  have l2: "length (drop (n div 2) q) = n - n div 2"
    using assms(2) by simp
  have "odd n \<longrightarrow> length (drop (n div 2) q) = Suc (length (take (n div 2) q))"
    unfolding l1 l2 by presburger
  moreover have "even n \<longrightarrow> length (drop (n div 2) q) = length (take (n div 2) q)"
    unfolding l1 l2 by presburger
  moreover have "sorted (map fst q)"
    unfolding assms(1) by (rule sorted_trend_query)
  moreover have "take (n div 2) q @ drop (n div 2) q = q"
    by simp
  moreover have "\<exists>res. calculate_carbon_trends db now u pd = Some res
          \<and> previous_avg res = fround2 (mean (map snd (take (n div 2) q)))
          \<and> recent_avg res = fround2 (mean (map snd (drop (n div 2) q)))"
    using assms
    by (simp add: calculate_carbon_trends_def trend_of_rows_def Let_def take_map drop_map)
  ultimately show ?thesis
    using l1 l2 by blast
qed

lemma db_three_query:
  "trend_query db_three (2024, 3, 3) 1 3 = [((2024, 3, 1), 1), ((2024, 3, 2), 2), ((2024, 3, 3), 6)]"
  by code_simp

theorem trend_split_by_position_witness:
  "trend_query db_three (2024, 3, 3) 1 3 = [((2024, 3, 1), 1), ((2024, 3, 2), 2), ((2024, 3, 3), 6)]
   \<and> (\<exists>res. calculate_carbon_trends db_three (2024, 3, 3) 1 3 = Some res
         \<and> previous_avg res = Fin 1 \<and> recent_avg res = Fin 4)"
proof -
  have m1: "fround2 (mean [1]) = Fin 1" by code_simp
  have m2: "fround2 (mean [2, 6]) = Fin 4" by code_simp
  show ?thesis
    using trend_split_by_position [OF refl refl, of 3 db_three "(2024, 3, 3)" 1]
    by (simp add: db_three_query m1 m2)
qed

text \<open>
  C3. Known change. With previous-half mean \<open>p \<noteq> 0\<close> and recent-half mean \<open>r\<close> the result
  carries \<open>r\<close>, \<open>p\<close> and \<open>(r - p) / p * 100\<close>, each rounded to two decimals: the value
  returned is a whole number of hundredths, lies within \<open>0.005\<close> of the exact value, and is
  the even number of hundredths when the exact value lies midway between two. The label is
  \<open>increasing\<close> exactly when the unrounded change is positive, \<open>decreasing\<close> otherwise, a
  zero change included. For \<open>p = 10\<close> the recent means \<open>12\<close> and \<open>8\<close> give \<open>20\<close>,
  increasing, and \<open>-20\<close>, decreasing.
\<close>

theorem trend_change_percent:
  assumes "rows = map snd (trend_query db now u pd)"
    and "pd \<le> length rows"
    and "mean (take (length rows div 2) rows) = Fin p"
    and "p \<noteq> 0"
    and "mean (drop (length rows div 2) rows) = Fin r"
  shows "calculate_carbon_trends db now u pd =
       Some \<lparr> recent_avg = Fin (round2 r), previous_avg = Fin (round2 p),
              change_percent = Fin (round2 ((r - p) / p * 100)),
              trend = (if 0 < (r - p) / p * 100 then ''increasing'' else ''decreasing'') \<rparr>
     \<and> \<bar>round2 r - r\<bar> \<le> 1 / 200 \<and> \<bar>round2 p - p\<bar> \<le> 1 / 200
     \<and> \<bar>round2 ((r - p) / p * 100) - (r - p) / p * 100\<bar> \<le> 1 / 200
     \<and> (\<exists>k::int. round2 r = of_int k / 100 \<and> (\<bar>round2 r - r\<bar> = 1 / 200 \<longrightarrow> even k))
     \<and> (\<exists>k::int. round2 p = of_int k / 100 \<and> (\<bar>round2 p - p\<bar> = 1 / 200 \<longrightarrow> even k))
     \<and> (\<exists>k::int. round2 ((r - p) / p * 100) = of_int k / 100
           \<and> (\<bar>round2 ((r - p) / p * 100) - (r - p) / p * 100\<bar> = 1 / 200 \<longrightarrow> even k))
     \<and> (p = 10 \<and> r = 12 \<longrightarrow> calculate_carbon_trends db now u pd =
           Some \<lparr> recent_avg = Fin 12, previous_avg = Fin 10, change_percent = Fin 20,
                  trend = ''increasing'' \<rparr>)
     \<and> (p = 10 \<and> r = 8 \<longrightarrow> calculate_carbon_trends db now u pd =
           Some \<lparr> recent_avg = Fin 8, previous_avg = Fin 10, change_percent = Fin (- 20),
                  trend = ''decreasing'' \<rparr>)"
proof -
  have main: "calculate_carbon_trends db now u pd =
       Some \<lparr> recent_avg = Fin (round2 r), previous_avg = Fin (round2 p),
              change_percent = Fin (round2 ((r - p) / p * 100)),
              trend = (if 0 < (r - p) / p * 100 then ''increasing'' else ''decreasing'') \<rparr>"
    unfolding calculate_carbon_trends_def assms(1) [symmetric]
    using trend_of_rows_Fin [OF assms(2,3,5)] assms(4) by simp
  have i12: "round2 12 = 12" "round2 10 = 10" "round2 8 = 8" "round2 20 = 20"
    "round2 (- 20) = - 20"
    using round2_int [of 12] round2_int [of 10] round2_int [of 8] round2_int [of 20]
      round2_int [of "- 20"] by simp_all
  have up: "p = 10 \<and> r = 12 \<longrightarrow> calculate_carbon_trends db now u pd =
           Some \<lparr> recent_avg = Fin 12, previous_avg = Fin 10, change_percent = Fin 20,
                  trend = ''increasing'' \<rparr>"
    using main by (simp add: i12)
  have down: "p = 10 \<and> r = 8 \<longrightarrow> calculate_carbon_trends db now u pd =
           Some \<lparr> recent_avg = Fin 8, previous_avg = Fin 10, change_percent = Fin (- 20),
                  trend = ''decreasing'' \<rparr>"
    using main by (simp add: i12)
  note h = round2_hundredths [of r] round2_hundredths [of p]
    round2_hundredths [of "(r - p) / p * 100"]
  note c = round2_close [of r] round2_close [of p] round2_close [of "(r - p) / p * 100"]
  show ?thesis
    using main up down c h by blast
qed

lemma db_rising_query:
  "map snd (trend_query db_rising (2024, 3, 2) 1 2) = [10, 12]"
  by code_simp

lemma db_thirds_query:
  "map snd (trend_query db_thirds (2024, 3, 2) 1 2) = [3, 4]"
  by code_simp

lemma round2_third: "round2 ((4 - 3) / 3 * 100) = 3333 / 100"
  by code_simp

theorem trend_change_percent_witness:
  "map snd (trend_query db_rising (2024, 3, 2) 1 2) = [10, 12]
   \<and> calculate_carbon_trends db_rising (2024, 3, 2) 1 2 =
       Some \<lparr> recent_avg = Fin 12, previous_avg = Fin 10, change_percent = Fin 20,
              trend = ''increasing'' \<rparr>
   \<and> map snd (trend_query db_thirds (2024, 3, 2) 1 2) = [3, 4]
   \<and> calculate_carbon_trends db_thirds (2024, 3, 2) 1 2 =
       Some \<lparr> recent_avg = Fin 4, previous_avg = Fin 3, change_percent = Fin (3333 / 100),
              trend = ''increasing'' \<rparr>"
proof -
  have a: "(2::nat) \<le> length [10, 12 :: rat]" by simp
  have b: "mean (take (length [10, 12 :: rat] div 2) [10, 12]) = Fin 10"
    by (simp add: mean_def)
  have c: "mean (drop (length [10, 12 :: rat] div 2) [10, 12]) = Fin 12"
    by (simp add: mean_def)
  have d: "(10 :: rat) \<noteq> 0" by simp
  have rising: "calculate_carbon_trends db_rising (2024, 3, 2) 1 2 =
       Some \<lparr> recent_avg = Fin 12, previous_avg = Fin 10, change_percent = Fin 20,
              trend = ''increasing'' \<rparr>"
    using trend_change_percent [OF db_rising_query [symmetric] a b d c] by blast
  have a': "(2::nat) \<le> length [3, 4 :: rat]" by simp
  have b': "mean (take (length [3, 4 :: rat] div 2) [3, 4]) = Fin 3"
    by (simp add: mean_def)
  have c': "mean (drop (length [3, 4 :: rat] div 2) [3, 4]) = Fin 4"
    by (simp add: mean_def)
  have d': "(3 :: rat) \<noteq> 0" by simp
  have r3: "round2 3 = 3" "round2 4 = 4"
    using round2_int [of 3] round2_int [of 4] by simp_all
  have "calculate_carbon_trends db_thirds (2024, 3, 2) 1 2 =
       Some \<lparr> recent_avg = Fin (round2 4), previous_avg = Fin (round2 3),
              change_percent = Fin (round2 ((4 - 3) / 3 * 100)),
              trend = (if (0::rat) < (4 - 3) / 3 * 100 then ''increasing''
                       else ''decreasing'') \<rparr>"
    using trend_change_percent [OF db_thirds_query [symmetric] a' b' d' c'] by blast
  then have thirds: "calculate_carbon_trends db_thirds (2024, 3, 2) 1 2 =
       Some \<lparr> recent_avg = Fin 4, previous_avg = Fin 3, change_percent = Fin (3333 / 100),
              trend = ''increasing'' \<rparr>"
    unfolding r3 round2_third by simp
  show ?thesis
    using rising thirds db_rising_query db_thirds_query by blast
qed

text \<open>
  C1. Zero baseline. The code has no check of the previous mean: on a store whose previous
  half has mean \<open>0\<close> and whose recent half has mean \<open>5\<close> the ordinary result record comes
  back, with an infinite change percent and the label \<open>increasing\<close>.
\<close>

theorem trend_zero_baseline_counterexample:
  "2 \<le> length (trend_window_rows db_zero_baseline (2024, 3, 2) 1 2)
   \<and> mean (take 1 (map snd (trend_query db_zero_baseline (2024, 3, 2) 1 2))) = Fin 0
   \<and> calculate_carbon_trends db_zero_baseline (2024, 3, 2) 1 2 =
       Some \<lparr> recent_avg = Fin 5, previous_avg = Fin 0, change_percent = PosInf,
              trend = ''increasing'' \<rparr>"
  by code_simp

text \<open>
  C1, as the code behaves. With a previous-half mean of exactly zero (and enough rows) no
  fault is raised and no separate outcome exists: the ordinary record is returned, its change
  percent being plus infinity when the recent mean is positive (label \<open>increasing\<close>), minus
  infinity when it is negative, and NaN when it is zero (label \<open>decreasing\<close> in both cases).
\<close>

theorem trend_zero_baseline:
  assumes "rows = map snd (trend_query db now u pd)"
    and "pd \<le> length rows"
    and "mean (take (length rows div 2) rows) = Fin 0"
    and "mean (drop (length rows div 2) rows) = Fin r"
  shows "calculate_carbon_trends db now u pd =
       Some \<lparr> recent_avg = Fin (round2 r), previous_avg = Fin 0,
              change_percent = (if 0 < r then PosInf else if r < 0 then NegInf else NaN),
              trend = (if 0 < r then ''increasing'' else ''decreasing'') \<rparr>"
proof -
  have z: "round2 0 = 0" using round2_int [of 0] by simp
  show ?thesis
    unfolding calculate_carbon_trends_def assms(1) [symmetric]
    using trend_of_rows_Fin [OF assms(2,3,4)] by (simp add: z)
qed

lemma db_all_zero_query:
  "map snd (trend_query db_all_zero (2024, 3, 2) 1 2) = [0, 0]"
  by code_simp

theorem trend_zero_baseline_witness:
  "map snd (trend_query db_all_zero (2024, 3, 2) 1 2) = [0, 0]
   \<and> calculate_carbon_trends db_all_zero (2024, 3, 2) 1 2 =
       Some \<lparr> recent_avg = Fin 0, previous_avg = Fin 0, change_percent = NaN,
              trend = ''decreasing'' \<rparr>"
proof -
  have a: "(2::nat) \<le> length [0, 0 :: rat]" by simp
  have b: "mean (take (length [0, 0 :: rat] div 2) [0, 0]) = Fin 0"
    by (simp add: mean_def)
  have c: "mean (drop (length [0, 0 :: rat] div 2) [0, 0]) = Fin 0"
    by (simp add: mean_def)
  have z: "round2 0 = 0" using round2_int [of 0] by simp
  show ?thesis
    using trend_zero_baseline [OF db_all_zero_query [symmetric] a b c] db_all_zero_query
    by (simp add: z)
qed

section \<open>Pattern Analyzer: results\<close>

lemma pattern_row_of_home:
  assumes "he_user_id h = Some u"
  shows "pattern_of (h, matched ts h) =
     \<lparr> p_consumption_date = consumption_date h,
       p_electricity_usage = electricity_usage h,
       p_gas_usage = gas_usage h,
       p_water_usage = water_usage h,
       p_heating_usage = heating_usage h,
       home_emissions = he_carbon_emissions h,
       transport_emissions = day_transport ts u (consumption_date h),
       total_emissions = he_carbon_emissions h + day_transport ts u (consumption_date h),
       month = month_of (consumption_date h) \<rparr>"
  using coalesce_matched [OF assms, of ts] by (simp add: pattern_of_def)

lemma patterns_member:
  assumes "p \<in> set (analyze_carbon_patterns db u)"
  obtains h where "h \<in> set (home_energy db)" "he_user_id h = Some u"
    "p = pattern_of (h, matched (transportation db) h)"
  using assms unfolding patterns_char by auto

lemma patterns_row_facts:
  assumes "p \<in> set (analyze_carbon_patterns db u)"
  shows "total_emissions p = home_emissions p + transport_emissions p"
    and "transport_emissions p = day_transport (transportation db) u (p_consumption_date p)"
    and "\<exists>h \<in> set (home_energy db). he_user_id h = Some u
           \<and> consumption_date h = p_consumption_date p \<and> he_carbon_emissions h = home_emissions p"
proof -
  from assms obtain h where h: "h \<in> set (home_energy db)" "he_user_id h = Some u"
    "p = pattern_of (h, matched (transportation db) h)"
    by (rule patterns_member)
  note r = pattern_row_of_home [OF h(2), of "transportation db"]
  show "total_emissions p = home_emissions p + transport_emissions p"
    unfolding h(3) r by simp
  show "transport_emissions p = day_transport (transportation db) u (p_consumption_date p)"
    unfolding h(3) r by simp
  show "\<exists>h \<in> set (home_energy db). he_user_id h = Some u
           \<and> consumption_date h = p_consumption_date p \<and> he_carbon_emissions h = home_emissions p"
    using h(1,2) unfolding h(3) r by (intro bexI [of _ h]) simp_all
qed

lemma patterns_dates:
  "set (map p_consumption_date (analyze_carbon_patterns db u))
     = consumption_date ` {h \<in> set (home_energy db). he_user_id h = Some u}"
proof -
  have "map p_consumption_date (analyze_carbon_patterns db u)
      = map consumption_date
          (sort_key consumption_date (filter (\<lambda>h. he_user_id h = Some u) (home_energy db)))"
    unfolding patterns_char by (simp add: pattern_of_def comp_def)
  then show ?thesis by auto
qed

lemma patterns_length:
  "length (analyze_carbon_patterns db u)
     = length (filter (\<lambda>h. he_user_id h = Some u) (home_energy db))"
  unfolding patterns_char by simp

lemma patterns_single:
  assumes "filter (\<lambda>h. he_user_id h = Some u) (home_energy db) = [h0]"
  shows "map total_emissions (analyze_carbon_patterns db u)
     = [he_carbon_emissions h0 + day_transport (transportation db) u (consumption_date h0)]"
proof -
  have "h0 \<in> set (filter (\<lambda>h. he_user_id h = Some u) (home_energy db))"
    unfolding assms by simp
  then have u: "he_user_id h0 = Some u" by simp
  show ?thesis
    unfolding patterns_char assms
    by (simp add: pattern_row_of_home [OF u])
qed

text \<open>
  C5. Combined daily emission. Every row of the Pattern Analyzer output stands for one
  home-energy row of the user; its total is the home emission plus the transport emission,
  the transport emission being the sum over all raw transportation rows of that user on that
  date. A date without transportation rows gets transport emission \<open>0\<close> and a total equal
  to the home emission. The dates of the output are exactly the dates of the user's
  home-energy rows, so a day without one does not appear. A day with home emission \<open>h\<close> and
  transport rows of \<open>1.5\<close> and \<open>2.5\<close> has total \<open>h + 4\<close>.
\<close>

theorem patterns_daily_total:
  "(\<forall>p \<in> set (analyze_carbon_patterns db u).
       total_emissions p = home_emissions p + transport_emissions p
     \<and> transport_emissions p = day_transport (transportation db) u (p_consumption_date p)
     \<and> (\<exists>h \<in> set (home_energy db). he_user_id h = Some u
           \<and> consumption_date h = p_consumption_date p \<and> he_carbon_emissions h = home_emissions p)
     \<and> (filter (\<lambda>t. activity_date t = p_consumption_date p \<and> tr_user_id t = Some u)
           (transportation db) = []
         \<longrightarrow> transport_emissions p = 0 \<and> total_emissions p = home_emissions p))
   \<and> set (map p_consumption_date (analyze_carbon_patterns db u))
       = consumption_date ` {h \<in> set (home_energy db). he_user_id h = Some u}
   \<and> length (analyze_carbon_patterns db u)
       = length (filter (\<lambda>h. he_user_id h = Some u) (home_energy db))
   \<and> (filter (\<lambda>h. he_user_id h = Some u) (home_energy db) = [h0]
       \<and> map tr_carbon_emissions
           (filter (\<lambda>t. activity_date t = consumption_date h0 \<and> tr_user_id t = Some u)
              (transportation db)) = [3 / 2, 5 / 2]
      \<longrightarrow> map total_emissions (analyze_carbon_patterns db u) = [he_carbon_emissions h0 + 4])"
proof -
  have rows: "\<forall>p \<in> set (analyze_carbon_patterns db u).
       total_emissions p = home_emissions p + transport_emissions p
     \<and> transport_emissions p = day_transport (transportation db) u (p_consumption_date p)
     \<and> (\<exists>h \<in> set (home_energy db). he_user_id h = Some u
           \<and> consumption_date h = p_consumption_date p \<and> he_carbon_emissions h = home_emissions p)
     \<and> (filter (\<lambda>t. activity_date t = p_consumption_date p \<and> tr_user_id t = Some u)
           (transportation db) = []
         \<longrightarrow> transport_emissions p = 0 \<and> total_emissions p = home_emissions p)"
  proof
    fix p assume p: "p \<in> set (analyze_carbon_patterns db u)"
    note f = patterns_row_facts [OF p]
    have "filter (\<lambda>t. activity_date t = p_consumption_date p \<and> tr_user_id t = Some u)
           (transportation db) = []
         \<longrightarrow> transport_emissions p = 0 \<and> total_emissions p = home_emissions p"
      unfolding f(1) f(2) by (simp add: day_transport_def)
    with f show "total_emissions p = home_emissions p + transport_emissions p
     \<and> transport_emissions p = day_transport (transportation db) u (p_consumption_date p)
     \<and> (\<exists>h \<in> set (home_energy db). he_user_id h = Some u
           \<and> consumption_date h = p_consumption_date p \<and> he_carbon_emissions h = home_emissions p)
     \<and> (filter (\<lambda>t. activity_date t = p_consumption_date p \<and> tr_user_id t = Some u)
           (transportation db) = []
         \<longrightarrow> transport_emissions p = 0 \<and> total_emissions p = home_emissions p)"
      by blast
  qed
  have ex: "filter (\<lambda>h. he_user_id h = Some u) (home_energy db) = [h0]
       \<and> map tr_carbon_emissions
           (filter (\<lambda>t. activity_date t = consumption_date h0 \<and> tr_user_id t = Some u)
              (transportation db)) = [3 / 2, 5 / 2]
      \<longrightarrow> map total_emissions (analyze_carbon_patterns db u) = [he_carbon_emissions h0 + 4]"
    by (auto simp: patterns_single day_transport_def)
  show ?thesis
    using rows ex patterns_dates [of db u] patterns_length [of db u] by blast
qed

lemma db_join_patterns:
  "map (\<lambda>p. (p_consumption_date p, home_emissions p, transport_emissions p, total_emissions p))
     (analyze_carbon_patterns db_join 1)
   = [((2024, 3, 1), 7, 4, 11), ((2024, 3, 2), 12, 0, 12)]"
  by code_simp

lemma db_join_home_list:
  "map consumption_date (filter (\<lambda>h. he_user_id h = Some 1) (home_energy db_join))
     = [(2024, 3, 2), (2024, 3, 1)]"
  by code_simp

lemma db_join_home_dates:
  "consumption_date ` {h \<in> set (home_energy db_join). he_user_id h = Some 1}
     = {(2024, 3, 1), (2024, 3, 2)}"
proof -
  have "consumption_date ` {h \<in> set (home_energy db_join). he_user_id h = Some 1}
      = set (map consumption_date (filter (\<lambda>h. he_user_id h = Some 1) (home_energy db_join)))"
    by auto
  then show ?thesis
    unfolding db_join_home_list by auto
qed

theorem patterns_daily_total_witness:
  "map (\<lambda>p. (p_consumption_date p, home_emissions p, transport_emissions p, total_emissions p))
     (analyze_carbon_patterns db_join 1)
     = [((2024, 3, 1), 7, 4, 11), ((2024, 3, 2), 12, 0, 12)]
   \<and> (2024, 3, 5) \<notin> set (map p_consumption_date (analyze_carbon_patterns db_join 1))
   \<and> length (analyze_carbon_patterns db_join 1) = 2"
proof -
  have "set (map p_consumption_date (analyze_carbon_patterns db_join 1))
      = {(2024, 3, 1), (2024, 3, 2)}"
    using patterns_daily_total [of db_join 1] db_join_home_dates by simp
  then have "(2024, 3, 5) \<notin> set (map p_consumption_date (analyze_carbon_patterns db_join 1))"
    by simp
  moreover have "length (analyze_carbon_patterns db_join 1) = 2"
    using arg_cong [OF db_join_patterns, of length] by simp
  ultimately show ?thesis
    using db_join_patterns by blast
qed

section \<open>Timeline Aggregator: results\<close>

lemma sum_list_zero_key:
  "k \<notin> set ds \<Longrightarrow> sum_list (map (\<lambda>d. if k = d then v else (0::rat)) ds) = 0"
  by (induction ds) auto

lemma sum_list_single_key:
  "distinct ds \<Longrightarrow> k \<in> set ds \<Longrightarrow>
   sum_list (map (\<lambda>d. if k = d then v else (0::rat)) ds) = v"
  by (induction ds) (auto simp: sum_list_zero_key)

lemma sum_list_groups:
  assumes "distinct ds"
  shows "key ` set rs \<subseteq> set ds \<Longrightarrow>
     sum_list (map (\<lambda>d. sum_list (map g (filter (\<lambda>r. key r = d) rs))) ds)
       = (sum_list (map g rs) :: rat)"
proof (induction rs)
  case Nil
  then show ?case by simp
next
  case (Cons r rs)
  have "sum_list (map (\<lambda>d. sum_list (map g (filter (\<lambda>x. key x = d) (r # rs)))) ds)
      = sum_list (map (\<lambda>d. (if key r = d then g r else 0)
                            + sum_list (map g (filter (\<lambda>x. key x = d) rs))) ds)"
    by (intro arg_cong [where f = sum_list] map_cong) auto
  also have "\<dots> = sum_list (map (\<lambda>d. if key r = d then g r else 0) ds)
                 + sum_list (map (\<lambda>d. sum_list (map g (filter (\<lambda>x. key x = d) rs))) ds)"
    by (simp add: sum_list_addf)
  also have "sum_list (map (\<lambda>d. if key r = d then g r else 0) ds) = g r"
    using assms Cons.prems by (intro sum_list_single_key) auto
  also have "sum_list (map (\<lambda>d. sum_list (map g (filter (\<lambda>x. key x = d) rs))) ds)
      = sum_list (map g rs)"
    using Cons by auto
  finally show ?case by simp
qed

lemma timeline_dates:
  "map fst (get_user_carbon_timeline db now u days)
     = sort (remdups (map consumption_date (timeline_rows db now u days)))"
  by (simp add: get_user_carbon_timeline_def Let_def comp_def)

lemma timeline_strictly_ascending:
  "sorted_wrt (<) (map fst (get_user_carbon_timeline db now u days))"
  unfolding timeline_dates by (simp add: strict_sorted_iff)

lemma timeline_sum:
  "sum_list (map snd (get_user_carbon_timeline db now u days))
     = sum_list (map he_carbon_emissions (timeline_rows db now u days))"
proof -
  let ?rows = "timeline_rows db now u days"
  let ?ds = "sort (remdups (map consumption_date ?rows))"
  have "sum_list (map snd (get_user_carbon_timeline db now u days))
      = sum_list (map (\<lambda>d. sum_list (map he_carbon_emissions
                          (filter (\<lambda>h. consumption_date h = d) ?rows))) ?ds)"
    by (simp add: get_user_carbon_timeline_def Let_def comp_def)
  also have "\<dots> = sum_list (map he_carbon_emissions ?rows)"
    by (rule sum_list_groups) auto
  finally show ?thesis .
qed

lemma timeline_entries:
  assumes "e \<in> set (get_user_carbon_timeline db now u days)"
  shows "snd e = sum_list (map he_carbon_emissions
                   (filter (\<lambda>h. consumption_date h = fst e) (timeline_rows db now u days)))"
    and "fst e \<in> consumption_date ` set (timeline_rows db now u days)"
  using assms by (auto simp: get_user_carbon_timeline_def Let_def)

text \<open>
  C7. Timeline. The rows that match are the home-energy rows of the user dated on or after
  today minus \<open>days\<close> (\<open>timeline_rows\<close>; the query sets no upper bound on the date). The
  result lists their dates strictly ascending, each date once, with the sum of the emissions
  of the matching rows of that date; the per-day totals add up to the sum over all matching
  rows, so no row is dropped or counted twice, several rows of one date included. A user
  with no matching row gets the empty list. The function is total: there is no error result.
\<close>

theorem timeline_ordered_sum_preserving:
  "sorted_wrt (<) (map fst (get_user_carbon_timeline db now u days))
   \<and> sum_list (map snd (get_user_carbon_timeline db now u days))
       = sum_list (map he_carbon_emissions (timeline_rows db now u days))
   \<and> (\<forall>e \<in> set (get_user_carbon_timeline db now u days).
         snd e = sum_list (map he_carbon_emissions
                   (filter (\<lambda>h. consumption_date h = fst e) (timeline_rows db now u days)))
         \<and> fst e \<in> consumption_date ` set (timeline_rows db now u days))
   \<and> set (map fst (get_user_carbon_timeline db now u days))
       = consumption_date ` set (timeline_rows db now u days)
   \<and> (timeline_rows db now u days = [] \<longrightarrow> get_user_carbon_timeline db now u days = [])"
proof -
  have "set (map fst (get_user_carbon_timeline db now u days))
       = consumption_date ` set (timeline_rows db now u days)"
    unfolding timeline_dates by simp
  moreover have "timeline_rows db now u days = [] \<longrightarrow> get_user_carbon_timeline db now u days = []"
    by (simp add: get_user_carbon_timeline_def)
  ultimately show ?thesis
    using timeline_strictly_ascending [of db now u days] timeline_sum [of db now u days]
      timeline_entries [of _ db now u days]
    by blast
qed

lemma db_timeline_result:
  "get_user_carbon_timeline db_timeline (2024, 3, 3) 1 30 = [((2024, 3, 1), 2), ((2024, 3, 2), 6)]"
  by code_simp

lemma db_timeline_rows:
  "map he_carbon_emissions (timeline_rows db_timeline (2024, 3, 3) 1 30) = [5, 2, 1]"
  by code_simp

lemma db_timeline_no_rows: "timeline_rows db_timeline (2024, 3, 3) 3 30 = []"
  by code_simp

theorem timeline_ordered_sum_preserving_witness:
  "get_user_carbon_timeline db_timeline (2024, 3, 3) 1 30 = [((2024, 3, 1), 2), ((2024, 3, 2), 6)]
   \<and> map he_carbon_emissions (timeline_rows db_timeline (2024, 3, 3) 1 30) = [5, 2, 1]
   \<and> sum_list (map snd (get_user_carbon_timeline db_timeline (2024, 3, 3) 1 30)) = 8
   \<and> timeline_rows db_timeline (2024, 3, 3) 3 30 = []
   \<and> get_user_carbon_timeline db_timeline (2024, 3, 3) 3 30 = []"
proof -
  have "sum_list (map snd (get_user_carbon_timeline db_timeline (2024, 3, 3) 1 30)) = 8"
    using timeline_ordered_sum_preserving [of db_timeline "(2024, 3, 3)" 1 30]
    unfolding db_timeline_rows by simp
  moreover have "get_user_carbon_timeline db_timeline (2024, 3, 3) 3 30 = []"
    using timeline_ordered_sum_preserving [of db_timeline "(2024, 3, 3)" 3 30] db_timeline_no_rows
    by blast
  ultimately show ?thesis
    using db_timeline_result db_timeline_rows db_timeline_no_rows by blast
qed

section \<open>Activity Ranker: results\<close>

lemma eco_group_name: "eco_category_name (eco_group rows name) = name"
  by (simp add: eco_group_def Let_def)

lemma eco_groups_names:
  "map eco_category_name (eco_groups db u)
     = remdups (map (\<lambda>(da, ac). category_name ac) (eco_joined db u))"
  by (simp add: eco_groups_def Let_def comp_def eco_group_name)

lemma eco_groups_member:
  assumes "r \<in> set (eco_groups db u)"
  shows "category_rows db u (eco_category_name r) \<noteq> []"
    and "avg_quantity r = sum_list (map quantity (category_rows db u (eco_category_name r)))
            / of_nat (length (category_rows db u (eco_category_name r)))"
    and "avg_carbon r = sum_list (map da_carbon_emissions (category_rows db u (eco_category_name r)))
            / of_nat (length (category_rows db u (eco_category_name r)))"
    and "total_carbon r = sum_list (map da_carbon_emissions (category_rows db u (eco_category_name r)))"
    and "frequency r = length (category_rows db u (eco_category_name r))"
proof -
  from assms obtain name where n: "name \<in> set (map (\<lambda>(da, ac). category_name ac) (eco_joined db u))"
    and r: "r = eco_group (eco_joined db u) name"
    by (auto simp: eco_groups_def Let_def)
  have nm: "eco_category_name r = name" by (simp add: r eco_group_name)
  from n show "category_rows db u (eco_category_name r) \<noteq> []"
    unfolding nm category_rows_def by (auto simp: filter_empty_conv)
  show "avg_quantity r = sum_list (map quantity (category_rows db u (eco_category_name r)))
            / of_nat (length (category_rows db u (eco_category_name r)))"
    unfolding nm by (simp add: r eco_group_def Let_def category_rows_def)
  show "avg_carbon r = sum_list (map da_carbon_emissions (category_rows db u (eco_category_name r)))
            / of_nat (length (category_rows db u (eco_category_name r)))"
    unfolding nm by (simp add: r eco_group_def Let_def category_rows_def)
  show "total_carbon r = sum_list (map da_carbon_emissions (category_rows db u (eco_category_name r)))"
    unfolding nm by (simp add: r eco_group_def Let_def category_rows_def)
  show "frequency r = length (category_rows db u (eco_category_name r))"
    unfolding nm by (simp add: r eco_group_def Let_def category_rows_def)
qed

lemma sorted_desc_sort_key:
  "sorted_wrt (\<lambda>a b. total_carbon b \<le> total_carbon a) (sort_key (\<lambda>r. - total_carbon r) gs)"
proof -
  have "sorted (map (\<lambda>r. - total_carbon r) (sort_key (\<lambda>r. - total_carbon r) gs))"
    by (rule sorted_sort_key)
  then show ?thesis by (simp add: sorted_map)
qed

lemma eco_sorted:
  "sorted_wrt (\<lambda>a b. total_carbon b \<le> total_carbon a) (get_eco_heavy_activities db u n)"
  by (cases "n < 0")
    (simp_all add: get_eco_heavy_activities_def sql_limit_def sorted_desc_sort_key)

lemma eco_length: "0 \<le> n \<Longrightarrow> length (get_eco_heavy_activities db u n) \<le> nat n"
  by (simp add: get_eco_heavy_activities_def sql_limit_def)

lemma eco_subset: "set (get_eco_heavy_activities db u n) \<subseteq> set (eco_groups db u)"
  by (cases "n < 0")
    (auto simp: get_eco_heavy_activities_def sql_limit_def dest: in_set_takeD)

lemma eco_distinct: "distinct (map eco_category_name (get_eco_heavy_activities db u n))"
proof -
  let ?s = "sort_key (\<lambda>r. - total_carbon r) (eco_groups db u)"
  have "distinct (map eco_category_name (eco_groups db u))"
    unfolding eco_groups_names by simp
  then have d: "distinct (map eco_category_name ?s)"
    by (simp add: distinct_map)
  have "distinct (map eco_category_name (take (nat n) ?s))"
    unfolding take_map [symmetric] using d by (rule distinct_take)
  with d show ?thesis
    by (cases "n < 0") (simp_all add: get_eco_heavy_activities_def sql_limit_def)
qed

lemma eco_top:
  assumes "r \<in> set (get_eco_heavy_activities db u n)"
    and "g \<in> set (eco_groups db u)" and "g \<notin> set (get_eco_heavy_activities db u n)"
  shows "total_carbon g \<le> total_carbon r"
proof (cases "n < 0")
  case True
  with assms(2,3) show ?thesis
    by (simp add: get_eco_heavy_activities_def sql_limit_def)
next
  case False
  let ?s = "sort_key (\<lambda>r. - total_carbon r) (eco_groups db u)"
  from False have l: "get_eco_heavy_activities db u n = take (nat n) ?s"
    by (simp add: get_eco_heavy_activities_def sql_limit_def)
  have "set (take (nat n) ?s) \<union> set (drop (nat n) ?s) = set ?s"
    unfolding set_append [symmetric] by simp
  with assms(2,3) have g: "g \<in> set (drop (nat n) ?s)"
    unfolding l by auto
  have r: "r \<in> set (take (nat n) ?s)"
    using assms(1) unfolding l .
  have "sorted_wrt (\<lambda>a b. total_carbon b \<le> total_carbon a) (take (nat n) ?s @ drop (nat n) ?s)"
    using sorted_desc_sort_key [of "eco_groups db u"] by simp
  with r g show ?thesis
    unfolding sorted_wrt_append by blast
qed

lemma eco_totals:
  "map total_carbon (sort_key (\<lambda>r. - total_carbon r) gs) = sort_key uminus (map total_carbon gs)"
  by (simp add: sort_key_map comp_def)

lemma eco_example:
  assumes "map total_carbon (eco_groups db u) = [10, 50, 30]"
  shows "map total_carbon (get_eco_heavy_activities db u 2) = [50, 30]"
proof -
  have "map total_carbon (get_eco_heavy_activities db u 2)
      = take 2 (map total_carbon (sort_key (\<lambda>r. - total_carbon r) (eco_groups db u)))"
    by (simp add: get_eco_heavy_activities_def sql_limit_def take_map)
  also have "\<dots> = take 2 (sort_key uminus [10, 50, 30 :: rat])"
    unfolding eco_totals assms ..
  also have "\<dots> = [50, 30]"
    by simp
  finally show ?thesis .
qed

text \<open>
  C8. Ranking. \<open>category_rows db u name\<close> are the user's activity rows whose category has the
  given name. The result of \<open>get_eco_heavy_activities\<close> holds one summary per category name,
  no name twice, each with the average quantity, the average emission, the total emission and
  the number of the rows of that name; the summaries are in descending order of total
  emission, there are at most \<open>n\<close> of them for \<open>n \<ge> 0\<close>, and every category left out has a
  total no larger than any total kept. With category totals \<open>[10, 50, 30]\<close> the top two are
  those of \<open>50\<close> and \<open>30\<close>, in that order.
\<close>

theorem eco_heavy_ranking:
  "sorted_wrt (\<lambda>a b. total_carbon b \<le> total_carbon a) (get_eco_heavy_activities db u n)
   \<and> (0 \<le> n \<longrightarrow> length (get_eco_heavy_activities db u n) \<le> nat n)
   \<and> distinct (map eco_category_name (get_eco_heavy_activities db u n))
   \<and> (\<forall>r \<in> set (get_eco_heavy_activities db u n).
         category_rows db u (eco_category_name r) \<noteq> []
       \<and> avg_quantity r = sum_list (map quantity (category_rows db u (eco_category_name r)))
            / of_nat (length (category_rows db u (eco_category_name r)))
       \<and> avg_carbon r
            = sum_list (map da_carbon_emissions (category_rows db u (eco_category_name r)))
            / of_nat (length (category_rows db u (eco_category_name r)))
       \<and> total_carbon r
            = sum_list (map da_carbon_emissions (category_rows db u (eco_category_name r)))
       \<and> frequency r = length (category_rows db u (eco_category_name r))
       \<and> (\<forall>g \<in> set (eco_groups db u).
            g \<notin> set (get_eco_heavy_activities db u n) \<longrightarrow> total_carbon g \<le> total_carbon r))
   \<and> (map total_carbon (eco_groups db u) = [10, 50, 30]
        \<longrightarrow> map total_carbon (get_eco_heavy_activities db u 2) = [50, 30])"
proof -
  have "\<forall>r \<in> set (get_eco_heavy_activities db u n).
         category_rows db u (eco_category_name r) \<noteq> []
       \<and> avg_quantity r = sum_list (map quantity (category_rows db u (eco_category_name r)))
            / of_nat (length (category_rows db u (eco_category_name r)))
       \<and> avg_carbon r
            = sum_list (map da_carbon_emissions (category_rows db u (eco_category_name r)))
            / of_nat (length (category_rows db u (eco_category_name r)))
       \<and> total_carbon r
            = sum_list (map da_carbon_emissions (category_rows db u (eco_category_name r)))
       \<and> frequency r = length (category_rows db u (eco_category_name r))
       \<and> (\<forall>g \<in> set (eco_groups db u).
            g \<notin> set (get_eco_heavy_activities db u n) \<longrightarrow> total_carbon g \<le> total_carbon r)"
  proof
    fix r assume r: "r \<in> set (get_eco_heavy_activities db u n)"
    then have "r \<in> set (eco_groups db u)" using eco_subset by blast
    note m = eco_groups_member [OF this]
    from m eco_top [OF r]
    show "category_rows db u (eco_category_name r) \<noteq> []
       \<and> avg_quantity r = sum_list (map quantity (category_rows db u (eco_category_name r)))
            / of_nat (length (category_rows db u (eco_category_name r)))
       \<and> avg_carbon r
            = sum_list (map da_carbon_emissions (category_rows db u (eco_category_name r)))
            / of_nat (length (category_rows db u (eco_category_name r)))
       \<and> total_carbon r
            = sum_list (map da_carbon_emissions (category_rows db u (eco_category_name r)))
       \<and> frequency r = length (category_rows db u (eco_category_name r))
       \<and> (\<forall>g \<in> set (eco_groups db u).
            g \<notin> set (get_eco_heavy_activities db u n) \<longrightarrow> total_carbon g \<le> total_carbon r)"
      by blast
  qed
  then show ?thesis
    using eco_sorted [of db u n] eco_length [of n db u] eco_distinct [of db u n]
      eco_example [of db u]
    by blast
qed

lemma db_eco_groups: "map total_carbon (eco_groups db_eco 1) = [10, 50, 30]"
  by code_simp

lemma db_eco_top2:
  "get_eco_heavy_activities db_eco 1 2 =
     [\<lparr> eco_category_name = ''Natural Gas'', avg_quantity = 100, avg_carbon = 50,
        total_carbon = 50, frequency = 1 \<rparr>,
      \<lparr> eco_category_name = ''Water Usage'', avg_quantity = 20, avg_carbon = 15,
        total_carbon = 30, frequency = 2 \<rparr>]"
  by code_simp

theorem eco_heavy_ranking_witness:
  "map total_carbon (eco_groups db_eco 1) = [10, 50, 30]
   \<and> map total_carbon (get_eco_heavy_activities db_eco 1 2) = [50, 30]
   \<and> length (get_eco_heavy_activities db_eco 1 2) \<le> 2
   \<and> get_eco_heavy_activities db_eco 1 2 =
       [\<lparr> eco_category_name = ''Natural Gas'', avg_quantity = 100, avg_carbon = 50,
          total_carbon = 50, frequency = 1 \<rparr>,
        \<lparr> eco_category_name = ''Water Usage'', avg_quantity = 20, avg_carbon = 15,
          total_carbon = 30, frequency = 2 \<rparr>]"
proof -
  have "map total_carbon (get_eco_heavy_activities db_eco 1 2) = [50, 30]"
    and "length (get_eco_heavy_activities db_eco 1 2) \<le> 2"
    using eco_heavy_ranking [of db_eco 1 2] db_eco_groups by simp_all
  then show ?thesis
    using db_eco_groups db_eco_top2 by blast
qed

section \<open>Suggestion Generator: results\<close>

lemma suggestions_shape:
  assumes "ps \<noteq> []"
  shows "suggestions_of ps =
     Inr ((if fgt (mean_skipna (map p_electricity_usage ps)) (Fin 30)
           then [electricity_suggestion (mean_skipna (map p_electricity_usage ps))] else [])
          @ (if fgt (mean (map transport_emissions ps)) (Fin 2)
             then [transportation_suggestion (mean (map transport_emissions ps))] else [])
          @ [seasonal_suggestion (map fst (nlargest 3 (monthly_avg ps)))])"
  using assms by (simp add: suggestions_of_def peak_months_of_def object_dtype_def Let_def)

lemma suggestions_empty_frame: "suggestions_of [] = Inl Object_Dtype_Error"
  by (simp add: suggestions_of_def peak_months_of_def object_dtype_def Let_def)

lemma category_simps:
  "category (electricity_suggestion a) = ''Electricity''"
  "category (transportation_suggestion a) = ''Transportation''"
  "category (seasonal_suggestion ms) = ''Seasonal Optimization''"
  by (simp_all add: electricity_suggestion_def transportation_suggestion_def
      seasonal_suggestion_def)

lemma electricity_iff:
  assumes "suggestions_of ps = Inr ss" and "ps \<noteq> []"
  shows "(\<exists>s \<in> set ss. category s = ''Electricity'')
     = fgt (mean_skipna (map p_electricity_usage ps)) (Fin 30)"
  using assms(1) unfolding suggestions_shape [OF assms(2)] by (auto simp: category_simps)

lemma transportation_iff:
  assumes "suggestions_of ps = Inr ss" and "ps \<noteq> []"
  shows "(\<exists>s \<in> set ss. category s = ''Transportation'')
     = fgt (mean (map transport_emissions ps)) (Fin 2)"
  using assms(1) unfolding suggestions_shape [OF assms(2)] by (auto simp: category_simps)

lemma electricity_content:
  assumes "suggestions_of ps = Inr ss" and "ps \<noteq> []"
    and "s \<in> set ss" and "category s = ''Electricity''"
  shows "s = Stat ''Electricity'' (fround2 (mean_skipna (map p_electricity_usage ps)))
               ''Consider switching to LED bulbs and unplugging devices when not in use''
               ''15-20%''"
  using assms(1,3,4) unfolding suggestions_shape [OF assms(2)]
  by (auto simp: category_simps split: if_splits) (simp_all add: electricity_suggestion_def)

lemma transportation_content:
  assumes "suggestions_of ps = Inr ss" and "ps \<noteq> []"
    and "s \<in> set ss" and "category s = ''Transportation''"
  shows "s = Stat ''Transportation'' (fround2 (mean (map transport_emissions ps)))
               ''Try using public transport or cycling for short trips''
               ''30-40%''"
  using assms(1,3,4) unfolding suggestions_shape [OF assms(2)]
  by (auto simp: category_simps split: if_splits) (simp_all add: transportation_suggestion_def)

text \<open>
  C9. Thresholds. For a user with pattern data the generator returns a list. With \<open>e\<close> the
  mean of the electricity usage over the pattern rows (missing values skipped) and \<open>t\<close> the
  mean of their transport emissions, the list contains an electricity suggestion exactly when
  \<open>e > 30\<close> and a transportation suggestion exactly when \<open>t > 2\<close>, both comparisons strict.
  Such a suggestion carries the measured mean rounded to two decimals and the fixed reduction
  range. A mean electricity of \<open>35\<close> triggers, one of \<open>25\<close> does not, and a mean transport
  emission of \<open>1\<close> does not.
\<close>

theorem suggestion_thresholds:
  assumes "ps = analyze_carbon_patterns db u"
    and "ps \<noteq> []"
    and "e = mean_skipna (map p_electricity_usage ps)"
    and "t = mean (map transport_emissions ps)"
  shows "\<exists>ss. generate_optimization_suggestions db u = Inr ss
     \<and> (\<exists>s \<in> set ss. category s = ''Electricity'') = fgt e (Fin 30)
     \<and> (\<exists>s \<in> set ss. category s = ''Transportation'') = fgt t (Fin 2)
     \<and> (\<forall>s \<in> set ss.
           (category s = ''Electricity'' \<longrightarrow>
              s = Stat ''Electricity'' (fround2 e)
                    ''Consider switching to LED bulbs and unplugging devices when not in use''
                    ''15-20%'')
         \<and> (category s = ''Transportation'' \<longrightarrow>
              s = Stat ''Transportation'' (fround2 t)
                    ''Try using public transport or cycling for short trips''
                    ''30-40%''))
     \<and> (\<forall>a. e = Fin a \<longrightarrow> (\<exists>s \<in> set ss. category s = ''Electricity'') = (30 < a))
     \<and> (\<forall>b. t = Fin b \<longrightarrow> (\<exists>s \<in> set ss. category s = ''Transportation'') = (2 < b))
     \<and> (e = Fin 35 \<longrightarrow> (\<exists>s \<in> set ss. category s = ''Electricity''))
     \<and> (e = Fin 25 \<longrightarrow> \<not> (\<exists>s \<in> set ss. category s = ''Electricity''))
     \<and> (t = Fin 1 \<longrightarrow> \<not> (\<exists>s \<in> set ss. category s = ''Transportation''))"
proof -
  obtain ss where ss: "suggestions_of ps = Inr ss"
    using suggestions_shape [OF assms(2)] by blast
  have g: "generate_optimization_suggestions db u = Inr ss"
    by (simp add: generate_optimization_suggestions_def Let_def assms(1) [symmetric] ss)
  have el: "(\<exists>s \<in> set ss. category s = ''Electricity'') = fgt e (Fin 30)"
    unfolding assms(3) using ss assms(2) by (rule electricity_iff)
  have tr: "(\<exists>s \<in> set ss. category s = ''Transportation'') = fgt t (Fin 2)"
    unfolding assms(4) using ss assms(2) by (rule transportation_iff)
  have content: "\<forall>s \<in> set ss.
           (category s = ''Electricity'' \<longrightarrow>
              s = Stat ''Electricity'' (fround2 e)
                    ''Consider switching to LED bulbs and unplugging devices when not in use''
                    ''15-20%'')
         \<and> (category s = ''Transportation'' \<longrightarrow>
              s = Stat ''Transportation'' (fround2 t)
                    ''Try using public transport or cycling for short trips''
                    ''30-40%'')"
    unfolding assms(3,4)
    using electricity_content [OF ss assms(2)] transportation_content [OF ss assms(2)]
    by blast
  have ea: "\<forall>a. e = Fin a \<longrightarrow> (\<exists>s \<in> set ss. category s = ''Electricity'') = (30 < a)"
    unfolding el by simp
  have tb: "\<forall>b. t = Fin b \<longrightarrow> (\<exists>s \<in> set ss. category s = ''Transportation'') = (2 < b)"
    unfolding tr by simp
  have e35: "e = Fin 35 \<longrightarrow> (\<exists>s \<in> set ss. category s = ''Electricity'')"
    unfolding el by simp
  have e25: "e = Fin 25 \<longrightarrow> \<not> (\<exists>s \<in> set ss. category s = ''Electricity'')"
    unfolding el by simp
  have t1: "t = Fin 1 \<longrightarrow> \<not> (\<exists>s \<in> set ss. category s = ''Transportation'')"
    unfolding tr by simp
  show ?thesis
    using g el tr content ea tb e35 e25 t1 by blast
qed

lemma db_high_patterns: "analyze_carbon_patterns db_high 1 \<noteq> []"
  by code_simp

lemma db_low_patterns: "analyze_carbon_patterns db_low 1 \<noteq> []"
  by code_simp

lemma db_high_means:
  "mean_skipna (map p_electricity_usage (analyze_carbon_patterns db_high 1)) = Fin 35"
  "mean (map transport_emissions (analyze_carbon_patterns db_high 1)) = Fin 3"
  by code_simp+

lemma db_low_means:
  "mean_skipna (map p_electricity_usage (analyze_carbon_patterns db_low 1)) = Fin 25"
  "mean (map transport_emissions (analyze_carbon_patterns db_low 1)) = Fin 1"
  by code_simp+

theorem suggestion_thresholds_witness:
  "mean_skipna (map p_electricity_usage (analyze_carbon_patterns db_high 1)) = Fin 35
   \<and> (\<exists>ss. generate_optimization_suggestions db_high 1 = Inr ss
         \<and> (\<exists>s \<in> set ss. category s = ''Electricity''))
   \<and> mean_skipna (map p_electricity_usage (analyze_carbon_patterns db_low 1)) = Fin 25
   \<and> mean (map transport_emissions (analyze_carbon_patterns db_low 1)) = Fin 1
   \<and> (\<exists>ss. generate_optimization_suggestions db_low 1 = Inr ss
         \<and> \<not> (\<exists>s \<in> set ss. category s = ''Electricity'')
         \<and> \<not> (\<exists>s \<in> set ss. category s = ''Transportation''))"
proof -
  have "\<exists>ss. generate_optimization_suggestions db_high 1 = Inr ss
         \<and> (\<exists>s \<in> set ss. category s = ''Electricity'')"
    using suggestion_thresholds [OF refl db_high_patterns refl refl] db_high_means(1) by blast
  moreover
  have "\<exists>ss. generate_optimization_suggestions db_low 1 = Inr ss
         \<and> \<not> (\<exists>s \<in> set ss. category s = ''Electricity'')
         \<and> \<not> (\<exists>s \<in> set ss. category s = ''Transportation'')"
    using suggestion_thresholds [OF refl db_low_patterns refl refl] db_low_means by blast
  ultimately show ?thesis
    using db_high_means db_low_means by blast
qed

lemma nlargest_length: "length (nlargest n s) \<le> n"
  by (simp add: nlargest_def)

lemma nlargest_subset: "set (nlargest n s) \<subseteq> set s"
  by (auto simp: nlargest_def dest: in_set_takeD)

lemma monthly_avg_months: "fst ` set (monthly_avg ps) = month ` set ps"
  by (force simp: monthly_avg_def)

lemma peak_months_facts:
  "length (map fst (nlargest 3 (monthly_avg ps))) \<le> 3"
  "set (map fst (nlargest 3 (monthly_avg ps))) \<subseteq> month ` set ps"
  using nlargest_length [of 3 "monthly_avg ps"] nlargest_subset [of 3 "monthly_avg ps"]
    monthly_avg_months [of ps]
  by auto

text \<open>
  C10. Order and size. For a user with at least one pattern row the generator returns a list:
  the electricity suggestion if its threshold fires, then the transportation suggestion if
  its threshold fires, then the seasonal suggestion, which is therefore the last element and
  occurs exactly once; the list has between one and three elements. The seasonal suggestion
  names at most three months, all of them months of pattern rows.
\<close>

theorem suggestions_order:
  assumes "ps = analyze_carbon_patterns db u"
    and "e = mean_skipna (map p_electricity_usage ps)"
    and "t = mean (map transport_emissions ps)"
    and "peak = map fst (nlargest 3 (monthly_avg ps))"
    and "ps \<noteq> []"
  shows "\<exists>ss. generate_optimization_suggestions db u = Inr ss
     \<and> ss = (if fgt e (Fin 30) then [electricity_suggestion e] else [])
            @ (if fgt t (Fin 2) then [transportation_suggestion t] else [])
            @ [seasonal_suggestion peak]
     \<and> last ss = Seasonal ''Seasonal Optimization'' peak
             ''Focus on energy efficiency during high-consumption months'' ''10-15%''
     \<and> length (filter (\<lambda>s. category s = ''Seasonal Optimization'') ss) = 1
     \<and> 1 \<le> length ss
     \<and> length ss \<le> 3
     \<and> length peak \<le> 3 \<and> set peak \<subseteq> month ` set ps"
proof -
  let ?ss = "(if fgt e (Fin 30) then [electricity_suggestion e] else [])
            @ (if fgt t (Fin 2) then [transportation_suggestion t] else [])
            @ [seasonal_suggestion peak]"
  have g: "generate_optimization_suggestions db u = Inr ?ss"
    unfolding assms(2,3,4)
    by (simp add: generate_optimization_suggestions_def Let_def assms(1) [symmetric]
        suggestions_shape [OF assms(5)])
  have l: "last ?ss = Seasonal ''Seasonal Optimization'' peak
             ''Focus on energy efficiency during high-consumption months'' ''10-15%''"
    by (simp add: seasonal_suggestion_def)
  have one: "length (filter (\<lambda>s. category s = ''Seasonal Optimization'') ?ss) = 1"
    by (simp add: category_simps)
  have len: "1 \<le> length ?ss" "length ?ss \<le> 3"
    by simp_all
  have pk: "length peak \<le> 3" "set peak \<subseteq> month ` set ps"
    unfolding assms(4) by (rule peak_months_facts)+
  show ?thesis
    using g l one len pk by blast
qed

lemma db_high_suggestions:
  "generate_optimization_suggestions db_high 1 =
     Inr [Stat ''Electricity'' (Fin 35)
            ''Consider switching to LED bulbs and unplugging devices when not in use''
            ''15-20%'',
          Stat ''Transportation'' (Fin 3)
            ''Try using public transport or cycling for short trips'' ''30-40%'',
          Seasonal ''Seasonal Optimization'' [3, 2]
            ''Focus on energy efficiency during high-consumption months'' ''10-15%'']"
  by code_simp

theorem suggestions_order_witness:
  "analyze_carbon_patterns db_high 1 \<noteq> []
   \<and> generate_optimization_suggestions db_high 1 =
     Inr [Stat ''Electricity'' (Fin 35)
            ''Consider switching to LED bulbs and unplugging devices when not in use''
            ''15-20%'',
          Stat ''Transportation'' (Fin 3)
            ''Try using public transport or cycling for short trips'' ''30-40%'',
          Seasonal ''Seasonal Optimization'' [3, 2]
            ''Focus on energy efficiency during high-consumption months'' ''10-15%'']
   \<and> (\<exists>ss. generate_optimization_suggestions db_high 1 = Inr ss
         \<and> length ss \<le> 3
         \<and> length (filter (\<lambda>s. category s = ''Seasonal Optimization'') ss) = 1)"
proof -
  have "\<exists>ss. generate_optimization_suggestions db_high 1 = Inr ss
         \<and> length ss \<le> 3
         \<and> length (filter (\<lambda>s. category s = ''Seasonal Optimization'') ss) = 1"
    using suggestions_order [OF refl refl refl refl db_high_patterns] by blast
  then show ?thesis
    using db_high_suggestions db_high_patterns by blast
qed

text \<open>
  C2. No pattern rows. The generator has no check for an empty pattern frame. For a user
  without pattern rows both threshold tests see a NaN mean and pass over, and the seasonal
  step then fails on the object-typed empty frame: the call ends in a fault and returns
  neither an empty list nor an insufficient-data marker.
\<close>

theorem suggestions_no_rows_fault:
  assumes "analyze_carbon_patterns db u = []"
  shows "generate_optimization_suggestions db u = Inl Object_Dtype_Error"
  by (simp add: generate_optimization_suggestions_def Let_def assms suggestions_empty_frame)

lemma db_empty_patterns: "analyze_carbon_patterns db_empty 1 = []"
  by code_simp

theorem suggestions_no_rows_fault_witness:
  "analyze_carbon_patterns db_empty 1 = []
   \<and> generate_optimization_suggestions db_empty 1 = Inl Object_Dtype_Error"
  using suggestions_no_rows_fault [OF db_empty_patterns] db_empty_patterns by blast

end
